theory Spec2Isabelle
  imports Main "HOL-Library.Word" "HOL-Library.Sublist" "HOL-Library.Multiset"
begin

section \<open>Yum repository source (pkg/objects/yum.go)\<close>

subsection \<open>Data model\<close>

text \<open>
  Byte slices are lists of 8-bit words. A Go \<open>error\<close> is represented by the text that
  its \<open>Error()\<close> method yields, because that text is all the code under study reads.
\<close>

type_synonym bytes = "8 word list"

type_synonym go_error = string

text \<open>\<open>ListEntriesError{Location, Message}\<close> and \<open>FileSpec{Path}\<close> of package objects.\<close>

record ListEntriesError =
  Location :: string
  Message :: string

record FileSpec =
  Path :: string

text \<open>
  The three anonymous structs that \<open>ListAllFiles\<close> hands to \<open>xml.Unmarshal\<close>. Nested
  one-field structs are flattened: \<open>entry.Location.Href\<close> is \<open>Location_Href entry\<close>,
  \<open>pkg.Location.Href\<close> is \<open>Package_Location_Href pkg\<close> and \<open>pkg.Delta.Href\<close> is
  \<open>Delta_Href pkg\<close>.
\<close>

record repomd_Entry =
  Type :: string
  Location_Href :: string

record repomd_doc =
  Entries :: "repomd_Entry list"

record primary_Package =
  Package_Location_Href :: string

record primary_doc =
  Packages :: "primary_Package list"

record prestodelta_Package =
  Delta_Href :: string

record prestodelta_doc =
  NewPackages :: "prestodelta_Package list"

text \<open>
  \<open>http.Request\<close> and \<open>http.Response\<close>, reduced to what the code touches. \<open>Body\<close> is the
  outcome of \<open>ioutil.ReadAll(resp.Body)\<close>: the bytes, or the read error.
\<close>

record http_Request =
  Method :: string
  URL :: string

record http_Response =
  StatusCode :: int
  Body :: "go_error + bytes"

text \<open>
  \<open>type YumSource URLSource\<close>: a YumSource is a URLSource under another name, and
  \<open>(*URLSource)(s)\<close> converts back. The struct URLSource itself is declared outside the
  files at hand, so its representation is a type parameter.
\<close>

datatype 'u YumSource = YumSource 'u

fun toURLSource :: "'u YumSource \<Rightarrow> 'u" where
  "toURLSource (YumSource u) = u"

text \<open>
  Everything \<open>yum.go\<close> calls but does not define is a field of the environment:
  the methods of URLSource (\<open>Validate\<close>, \<open>Connect\<close>, \<open>GetFile\<close>, \<open>getURLForPath\<close>, and
  \<open>HTTPClient.Do\<close> on its client), and the standard library (\<open>http.NewRequest\<close>,
  \<open>gzip.NewReader\<close> followed by reading the stream, \<open>xml.Unmarshal\<close> at each of the
  three target types). \<open>Connect\<close> has a pointer receiver, so it returns the receiver as
  well. A gzip reader is represented by what reading it to the end yields. The remote
  side answers as a function of the request for the time of one enumeration.
\<close>

record ('u, 'fs, 'gf) env =
  URLSource_Validate :: "'u \<Rightarrow> string \<Rightarrow> go_error list"
  URLSource_Connect :: "'u \<Rightarrow> go_error option \<times> 'u"
  URLSource_GetFile :: "'u \<Rightarrow> string \<Rightarrow> 'fs \<Rightarrow> 'gf"
  URLSource_getURLForPath :: "'u \<Rightarrow> string \<Rightarrow> string"
  HTTPClient_Do :: "'u \<Rightarrow> http_Request \<Rightarrow> go_error + http_Response"
  http_NewRequest :: "string \<Rightarrow> string \<Rightarrow> go_error + http_Request"
  gzip_NewReader :: "bytes \<Rightarrow> go_error + (go_error + bytes)"
  xml_Unmarshal_repomd :: "bytes \<Rightarrow> go_error + repomd_doc"
  xml_Unmarshal_primary :: "bytes \<Rightarrow> go_error + primary_doc"
  xml_Unmarshal_prestodelta :: "bytes \<Rightarrow> go_error + prestodelta_doc"

subsection \<open>Delegating methods\<close>

definition Validate :: "('u, 'fs, 'gf) env \<Rightarrow> 'u YumSource \<Rightarrow> string \<Rightarrow> go_error list" where
  "Validate E s name = URLSource_Validate E (toURLSource s) name"

definition Connect :: "('u, 'fs, 'gf) env \<Rightarrow> 'u YumSource \<Rightarrow> go_error option \<times> 'u YumSource" where
  "Connect E s = (case URLSource_Connect E (toURLSource s) of (err, u') \<Rightarrow> (err, YumSource u'))"

definition GetFile :: "('u, 'fs, 'gf) env \<Rightarrow> 'u YumSource \<Rightarrow> string \<Rightarrow> 'fs \<Rightarrow> 'gf" where
  "GetFile E s directoryPath targetState =
     URLSource_GetFile E (toURLSource s) directoryPath targetState"

definition ListEntries ::
  "('u, 'fs, 'gf) env \<Rightarrow> 'u YumSource \<Rightarrow> string \<Rightarrow> ListEntriesError + FileSpec list" where
  "ListEntries E s directoryPath =
     Inl \<lparr>Location = URLSource_getURLForPath E (toURLSource s) directoryPath,
          Message = ''ListEntries is not implemented for YumSource''\<rparr>"

subsection \<open>Fetching and parsing one document\<close>

definition getFileContents ::
  "('u, 'fs, 'gf) env \<Rightarrow> 'u YumSource \<Rightarrow> string \<Rightarrow> bytes \<times> string \<times> ListEntriesError option" where
  "getFileContents E s path =
     (let u = toURLSource s;
          uri = URLSource_getURLForPath E u path
      in case http_NewRequest E ''GET'' uri of
           Inl err \<Rightarrow> ([], uri, Some \<lparr>Location = uri, Message = ''GET failed: '' @ err\<rparr>)
         | Inr req \<Rightarrow>
             (case HTTPClient_Do E u req of
                Inl err \<Rightarrow> ([], uri, Some \<lparr>Location = uri, Message = ''GET failed: '' @ err\<rparr>)
              | Inr resp \<Rightarrow>
                  (case Body resp of
                     Inl err \<Rightarrow> ([], uri, Some \<lparr>Location = uri, Message = ''GET failed: '' @ err\<rparr>)
                   | Inr result \<Rightarrow> (result, uri, None))))"

definition gzip_magic :: bytes where
  "gzip_magic = [0x1f, 0x8b, 0x08]"

definition bytes_HasPrefix :: "bytes \<Rightarrow> bytes \<Rightarrow> bool" where
  "bytes_HasPrefix s p = prefix p s"

text \<open>
  \<open>gzip.NewReader\<close> and then, only when it gave no error, \<open>ioutil.ReadAll(reader)\<close>; the
  error of either step ends the function.
\<close>

definition gunzip :: "('u, 'fs, 'gf) env \<Rightarrow> bytes \<Rightarrow> go_error + bytes" where
  "gunzip E buf = (case gzip_NewReader E buf of Inl err \<Rightarrow> Inl err | Inr reader \<Rightarrow> reader)"

text \<open>
  \<open>downloadAndParseXML(path, data)\<close>: the target \<open>data\<close> fixes which decoder
  \<open>xml.Unmarshal\<close> runs, so the decoder is the argument; the filled target is returned
  in place of the \<open>nil\<close> error.
\<close>

definition downloadAndParseXML ::
  "('u, 'fs, 'gf) env \<Rightarrow> 'u YumSource \<Rightarrow> string \<Rightarrow> (bytes \<Rightarrow> go_error + 'd)
     \<Rightarrow> string \<times> (ListEntriesError + 'd)" where
  "downloadAndParseXML E s path unmarshal =
     (case getFileContents E s path of
        (buf, uri, Some lerr) \<Rightarrow> (uri, Inl lerr)
      | (buf, uri, None) \<Rightarrow>
          (case (if bytes_HasPrefix buf gzip_magic then gunzip E buf else Inr buf) of
             Inl err \<Rightarrow>
               (uri, Inl \<lparr>Location = uri,
                          Message = ''error while decompressing GZip archive: '' @ err\<rparr>)
           | Inr buf' \<Rightarrow>
               (case unmarshal buf' of
                  Inl err \<Rightarrow>
                    (uri, Inl \<lparr>Location = uri, Message = ''error while parsing XML: '' @ err\<rparr>)
                | Inr data \<Rightarrow> (uri, Inr data))))"

subsection \<open>Enumeration\<close>

definition repomdPath :: string where
  "repomdPath = ''repodata/repomd.xml''"

text \<open>The loop over \<open>repomd.Entries\<close>, with its two accumulators.\<close>

fun noteEntries ::
  "repomd_Entry list \<Rightarrow> FileSpec list \<Rightarrow> (string \<rightharpoonup> string)
     \<Rightarrow> FileSpec list \<times> (string \<rightharpoonup> string)" where
  "noteEntries [] allFiles hrefsByType = (allFiles, hrefsByType)"
| "noteEntries (entry # rest) allFiles hrefsByType =
     noteEntries rest (allFiles @ [\<lparr>Path = Location_Href entry\<rparr>])
       (hrefsByType(Type entry \<mapsto> Location_Href entry))"

text \<open>The loops over \<open>primary.Packages\<close> and \<open>prestodelta.Packages\<close>.\<close>

fun appendPackages :: "primary_Package list \<Rightarrow> FileSpec list \<Rightarrow> FileSpec list" where
  "appendPackages [] allFiles = allFiles"
| "appendPackages (pkg # rest) allFiles =
     appendPackages rest (allFiles @ [\<lparr>Path = Package_Location_Href pkg\<rparr>])"

fun appendDeltas :: "prestodelta_Package list \<Rightarrow> FileSpec list \<Rightarrow> FileSpec list" where
  "appendDeltas [] allFiles = allFiles"
| "appendDeltas (pkg # rest) allFiles =
     appendDeltas rest (allFiles @ [\<lparr>Path = Delta_Href pkg\<rparr>])"

definition ListAllFiles ::
  "('u, 'fs, 'gf) env \<Rightarrow> 'u YumSource \<Rightarrow> ListEntriesError + FileSpec list" where
  "ListAllFiles E s =
     (case downloadAndParseXML E s repomdPath (xml_Unmarshal_repomd E) of
        (repomdURL, Inl lerr) \<Rightarrow> Inl lerr
      | (repomdURL, Inr repomd) \<Rightarrow>
          (case noteEntries (Entries repomd) [\<lparr>Path = repomdPath\<rparr>] Map.empty of
             (allFiles, hrefsByType) \<Rightarrow>
               (case hrefsByType ''primary'' of
                  None \<Rightarrow>
                    Inl \<lparr>Location = repomdURL,
                         Message = ''cannot find link to primary.xml.gz in repomd.xml''\<rparr>
                | Some href \<Rightarrow>
                    (case downloadAndParseXML E s href (xml_Unmarshal_primary E) of
                       (_, Inl lerr) \<Rightarrow> Inl lerr
                     | (_, Inr primary) \<Rightarrow>
                         (let allFiles' = appendPackages (Packages primary) allFiles
                          in case hrefsByType ''prestodelta'' of
                               None \<Rightarrow> Inr allFiles'
                             | Some href' \<Rightarrow>
                                 (case downloadAndParseXML E s href' (xml_Unmarshal_prestodelta E) of
                                    (_, Inl lerr) \<Rightarrow> Inl lerr
                                  | (_, Inr prestodelta) \<Rightarrow>
                                      Inr (appendDeltas (NewPackages prestodelta) allFiles')))))))"

subsection \<open>A small repository server for concrete runs\<close>

text \<open>
  Three repositories behind one server. Under \<open>a/\<close> the repomd lists a primary and a
  prestodelta index, under \<open>b/\<close> only a primary index, under \<open>c/\<close> only a
  prestodelta index; the primary index is gzip-compressed. Every other URL is answered
  with status 404 and a short body. Documents are tiny byte strings, and the decoders
  know just these documents.
\<close>

definition demo_Do :: "string \<Rightarrow> http_Request \<Rightarrow> go_error + http_Response" where
  "demo_Do u req =
     (if URL req = ''a/repodata/repomd.xml'' then Inr \<lparr>StatusCode = 200, Body = Inr [1]\<rparr>
      else if URL req = ''b/repodata/repomd.xml'' then Inr \<lparr>StatusCode = 200, Body = Inr [4]\<rparr>
      else if URL req = ''c/repodata/repomd.xml'' then Inr \<lparr>StatusCode = 200, Body = Inr [5]\<rparr>
      else if URL req = ''a/repodata/primary.xml.gz'' \<or> URL req = ''b/repodata/primary.xml.gz''
        then Inr \<lparr>StatusCode = 200, Body = Inr [0x1f, 0x8b, 0x08, 2]\<rparr>
      else if URL req = ''a/repodata/prestodelta.xml'' then Inr \<lparr>StatusCode = 200, Body = Inr [3]\<rparr>
      else if URL req = ''e/repodata/repomd.xml''
        then Inr \<lparr>StatusCode = 200, Body = Inr [0x1f, 0x8b, 0x08, 7]\<rparr>
      else if URL req = ''f/repodata/repomd.xml'' then Inl ''connection refused''
      else Inr \<lparr>StatusCode = 404, Body = Inr [0]\<rparr>)"

definition demo_env :: "(string, unit, string) env" where
  "demo_env =
     \<lparr>URLSource_Validate = (\<lambda>u name. if u = [] then [name @ '': missing URL''] else []),
      URLSource_Connect = (\<lambda>u. (None, u)),
      URLSource_GetFile = (\<lambda>u path st. u @ path),
      URLSource_getURLForPath = (\<lambda>u path. u @ path),
      HTTPClient_Do = demo_Do,
      http_NewRequest = (\<lambda>m uri. Inr \<lparr>Method = m, URL = uri\<rparr>),
      gzip_NewReader =
        (\<lambda>buf. if buf = [0x1f, 0x8b, 0x08, 2] then Inr (Inr [2])
              else if buf = [0x1f, 0x8b, 0x08, 7] then Inr (Inl ''unexpected EOF'')
              else Inl ''gzip: invalid header''),
      xml_Unmarshal_repomd =
        (\<lambda>buf. if buf = [1] then
                Inr \<lparr>Entries =
                  [\<lparr>Type = ''primary'', Location_Href = ''repodata/primary.xml.gz''\<rparr>,
                   \<lparr>Type = ''prestodelta'', Location_Href = ''repodata/prestodelta.xml''\<rparr>]\<rparr>
              else if buf = [4] then
                Inr \<lparr>Entries =
                  [\<lparr>Type = ''primary'', Location_Href = ''repodata/primary.xml.gz''\<rparr>]\<rparr>
              else if buf = [5] then
                Inr \<lparr>Entries =
                  [\<lparr>Type = ''prestodelta'', Location_Href = ''repodata/prestodelta.xml''\<rparr>]\<rparr>
              else Inl ''EOF''),
      xml_Unmarshal_primary =
        (\<lambda>buf. if buf = [2] then
                Inr \<lparr>Packages = [\<lparr>Package_Location_Href = ''pkg-1.0.rpm''\<rparr>]\<rparr>
              else Inl ''EOF''),
      xml_Unmarshal_prestodelta =
        (\<lambda>buf. if buf = [3] then
                Inr \<lparr>NewPackages = [\<lparr>Delta_Href = ''drpms/pkg-0.9_1.0.drpm''\<rparr>]\<rparr>
              else Inl ''EOF'')\<rparr>"

section \<open>The worker pipeline (threads.go)\<close>

subsection \<open>Data model\<close>

text \<open>
  The struct \<open>File\<close> is declared outside the files at hand; the pipeline reads only its
  \<open>Path\<close>. Receiving from a closed channel yields the zero value, whose path is empty.
\<close>

record File =
  File_Path :: string

definition zero_File :: File where
  "zero_File = \<lparr>File_Path = ''''\<rparr>"

text \<open>
  What the pipeline calls but does not define: the scraper (\<open>Done\<close> and \<open>Next\<close>, over
  a scraper state) and the two methods of \<open>File\<close>, which act on what lies behind the
  Swift connection.
\<close>

record ('sc, 'w) collaborators =
  Scraper_Done :: "'sc \<Rightarrow> bool"
  Scraper_Next :: "'sc \<Rightarrow> File list \<times> 'sc"
  NeedsTransfer :: "File \<Rightarrow> 'w \<Rightarrow> bool \<times> 'w"
  PerformTransfer :: "File \<Rightarrow> 'w \<Rightarrow> bool \<times> 'w"

text \<open>Both channels are made with \<open>make(chan File, 10)\<close>.\<close>

definition chan_cap :: nat where
  "chan_cap = 10"

text \<open>
  Where each goroutine stands. The scraper is at the head of its loop, inside the
  \<open>range\<close> over the files of one listing, at the send of one file, or in its epilogue:
  the two statistics writes, then the deferred \<open>close(out)\<close> and \<open>WaitGroup.Done()\<close>.
  A worker (checker or transfer) is at its \<open>select\<close>, holds a received file, is at the
  send of a file (checker only), or is in its epilogue.
\<close>

datatype scraper_pc =
    S_Loop
  | S_Range "File list"
  | S_Send File "File list"
  | S_Submit_DirectoriesScanned
  | S_Submit_FilesFound
  | S_Close
  | S_WgDone
  | S_Exited

datatype worker_pc =
    W_Select
  | W_Got File
  | W_Send File
  | W_Submit
  | W_Close
  | W_WgDone
  | W_Exited

datatype main_pc = M_Wait | M_Logged | M_Returned

datatype stage = Scraper | Checker | Transfer

datatype counter =
    Ctr_DirectoriesScanned
  | Ctr_FilesFound
  | Ctr_FilesNeedTransfer
  | Ctr_FilesTransferred

text \<open>The actions a run is observed by, in the order they happen.\<close>

datatype event =
    Ev_Cancel
  | Ev_Next "File list"
  | Ev_Recv stage File
  | Ev_NeedsTransfer File bool
  | Ev_PerformTransfer File bool
  | Ev_Send stage File
  | Ev_Write counter stage "64 word"
  | Ev_WgDone stage
  | Ev_Log "64 word" "64 word" "64 word" "64 word"

text \<open>
  The whole system: the fields of \<open>SharedState\<close> that the workers touch (the context as
  the flag \<open>cancelled\<close>, the wait group as its counter, the four statistics), the two
  channels, the locals of the three goroutines, and the trace of actions so far.
\<close>

record ('sc, 'w) system =
  cancelled :: bool
  WaitGroup :: nat
  DirectoriesScanned :: "64 word"
  FilesFound :: "64 word"
  FilesNeedTransfer :: "64 word"
  FilesTransferred :: "64 word"
  world :: 'w
  ch1 :: "File list"
  ch1_closed :: bool
  ch2 :: "File list"
  ch2_closed :: bool
  scraper :: 'sc
  s_pc :: scraper_pc
  directoriesScanned :: "64 word"
  filesFound :: "64 word"
  c_pc :: worker_pc
  filesNeedTransfer :: "64 word"
  t_pc :: worker_pc
  filesTransferred :: "64 word"
  m_pc :: main_pc
  trace :: "event list"

text \<open>
  \<open>Run\<close> up to \<open>WaitGroup.Wait()\<close>: the three \<open>WaitGroup.Add(1)\<close> have been made, the
  channels are empty and open, every goroutine is at its start.
\<close>

definition init :: "'sc \<Rightarrow> 'w \<Rightarrow> ('sc, 'w) system" where
  "init sc w =
     \<lparr>cancelled = False, WaitGroup = 3,
      DirectoriesScanned = 0, FilesFound = 0, FilesNeedTransfer = 0, FilesTransferred = 0,
      world = w, ch1 = [], ch1_closed = False, ch2 = [], ch2_closed = False,
      scraper = sc, s_pc = S_Loop, directoriesScanned = 0, filesFound = 0,
      c_pc = W_Select, filesNeedTransfer = 0,
      t_pc = W_Select, filesTransferred = 0,
      m_pc = M_Wait, trace = []\<rparr>"

subsection \<open>One step of each goroutine\<close>

text \<open>
  A step that cannot be taken (a send on a full channel, a receive from an empty open
  channel, \<open>Wait\<close> with a positive counter) leaves the system as it is. The test of the
  context, the test of \<open>scraper.Done()\<close> and the call of \<open>scraper.Next()\<close> at the head
  of the scraper's loop are one step.
\<close>

definition scraper_step :: "('sc, 'w) collaborators \<Rightarrow> ('sc, 'w) system \<Rightarrow> ('sc, 'w) system" where
  "scraper_step C s =
     (case s_pc s of
        S_Loop \<Rightarrow>
          if cancelled s then s\<lparr>s_pc := S_Submit_DirectoriesScanned\<rparr>
          else if Scraper_Done C (scraper s) then s\<lparr>s_pc := S_Submit_DirectoriesScanned\<rparr>
          else (case Scraper_Next C (scraper s) of
                  (files, sc') \<Rightarrow>
                    s\<lparr>scraper := sc', s_pc := S_Range files, trace := trace s @ [Ev_Next files]\<rparr>)
      | S_Range files \<Rightarrow>
          (case files of
             [] \<Rightarrow> s\<lparr>directoriesScanned := directoriesScanned s + 1, s_pc := S_Loop\<rparr>
           | file # rest \<Rightarrow> s\<lparr>filesFound := filesFound s + 1, s_pc := S_Send file rest\<rparr>)
      | S_Send file rest \<Rightarrow>
          if length (ch1 s) < chan_cap
          then s\<lparr>ch1 := ch1 s @ [file], s_pc := S_Range rest,
                 trace := trace s @ [Ev_Send Scraper file]\<rparr>
          else s
      | S_Submit_DirectoriesScanned \<Rightarrow>
          s\<lparr>DirectoriesScanned := directoriesScanned s, s_pc := S_Submit_FilesFound,
            trace := trace s @ [Ev_Write Ctr_DirectoriesScanned Scraper (directoriesScanned s)]\<rparr>
      | S_Submit_FilesFound \<Rightarrow>
          s\<lparr>FilesFound := filesFound s, s_pc := S_Close,
            trace := trace s @ [Ev_Write Ctr_FilesFound Scraper (filesFound s)]\<rparr>
      | S_Close \<Rightarrow> s\<lparr>ch1_closed := True, s_pc := S_WgDone\<rparr>
      | S_WgDone \<Rightarrow>
          s\<lparr>WaitGroup := WaitGroup s - 1, s_pc := S_Exited,
            trace := trace s @ [Ev_WgDone Scraper]\<rparr>
      | S_Exited \<Rightarrow> s)"

text \<open>
  Which case a \<open>select\<close> takes is not the worker's choice: when several cases can
  proceed, Go picks one of them at random. The case is an input of the step; a case
  that cannot proceed is not taken.
\<close>

datatype select_case = Case_Done | Case_Recv

definition checker_step ::
  "('sc, 'w) collaborators \<Rightarrow> select_case \<Rightarrow> ('sc, 'w) system \<Rightarrow> ('sc, 'w) system" where
  "checker_step C sel s =
     (case c_pc s of
        W_Select \<Rightarrow>
          (case sel of
             Case_Done \<Rightarrow> if cancelled s then s\<lparr>c_pc := W_Submit\<rparr> else s
           | Case_Recv \<Rightarrow>
               (case ch1 s of
                  file # rest \<Rightarrow>
                    s\<lparr>ch1 := rest, c_pc := W_Got file,
                      trace := trace s @ [Ev_Recv Checker file]\<rparr>
                | [] \<Rightarrow>
                    if ch1_closed s
                    then s\<lparr>c_pc := W_Got zero_File,
                           trace := trace s @ [Ev_Recv Checker zero_File]\<rparr>
                    else s))
      | W_Got file \<Rightarrow>
          if File_Path file = '''' then s\<lparr>c_pc := W_Submit\<rparr>
          else (case NeedsTransfer C file (world s) of
                  (b, w') \<Rightarrow>
                    if b
                    then s\<lparr>world := w', filesNeedTransfer := filesNeedTransfer s + 1,
                           c_pc := W_Send file,
                           trace := trace s @ [Ev_NeedsTransfer file True]\<rparr>
                    else s\<lparr>world := w', c_pc := W_Select,
                           trace := trace s @ [Ev_NeedsTransfer file False]\<rparr>)
      | W_Send file \<Rightarrow>
          if length (ch2 s) < chan_cap
          then s\<lparr>ch2 := ch2 s @ [file], c_pc := W_Select,
                 trace := trace s @ [Ev_Send Checker file]\<rparr>
          else s
      | W_Submit \<Rightarrow>
          s\<lparr>FilesNeedTransfer := filesNeedTransfer s, c_pc := W_Close,
            trace := trace s @ [Ev_Write Ctr_FilesNeedTransfer Checker (filesNeedTransfer s)]\<rparr>
      | W_Close \<Rightarrow> s\<lparr>ch2_closed := True, c_pc := W_WgDone\<rparr>
      | W_WgDone \<Rightarrow>
          s\<lparr>WaitGroup := WaitGroup s - 1, c_pc := W_Exited,
            trace := trace s @ [Ev_WgDone Checker]\<rparr>
      | W_Exited \<Rightarrow> s)"

text \<open>The transfer worker has no output channel: it never sends and closes nothing.\<close>

definition transfer_step ::
  "('sc, 'w) collaborators \<Rightarrow> select_case \<Rightarrow> ('sc, 'w) system \<Rightarrow> ('sc, 'w) system" where
  "transfer_step C sel s =
     (case t_pc s of
        W_Select \<Rightarrow>
          (case sel of
             Case_Done \<Rightarrow> if cancelled s then s\<lparr>t_pc := W_Submit\<rparr> else s
           | Case_Recv \<Rightarrow>
               (case ch2 s of
                  file # rest \<Rightarrow>
                    s\<lparr>ch2 := rest, t_pc := W_Got file,
                      trace := trace s @ [Ev_Recv Transfer file]\<rparr>
                | [] \<Rightarrow>
                    if ch2_closed s
                    then s\<lparr>t_pc := W_Got zero_File,
                           trace := trace s @ [Ev_Recv Transfer zero_File]\<rparr>
                    else s))
      | W_Got file \<Rightarrow>
          if File_Path file = '''' then s\<lparr>t_pc := W_Submit\<rparr>
          else (case PerformTransfer C file (world s) of
                  (b, w') \<Rightarrow>
                    if b
                    then s\<lparr>world := w', filesTransferred := filesTransferred s + 1,
                           t_pc := W_Select,
                           trace := trace s @ [Ev_PerformTransfer file True]\<rparr>
                    else s\<lparr>world := w', t_pc := W_Select,
                           trace := trace s @ [Ev_PerformTransfer file False]\<rparr>)
      | W_Send file \<Rightarrow> s
      | W_Submit \<Rightarrow>
          s\<lparr>FilesTransferred := filesTransferred s, t_pc := W_WgDone,
            trace := trace s @ [Ev_Write Ctr_FilesTransferred Transfer (filesTransferred s)]\<rparr>
      | W_Close \<Rightarrow> s
      | W_WgDone \<Rightarrow>
          s\<lparr>WaitGroup := WaitGroup s - 1, t_pc := W_Exited,
            trace := trace s @ [Ev_WgDone Transfer]\<rparr>
      | W_Exited \<Rightarrow> s)"

text \<open>
  \<open>Run\<close> from \<open>WaitGroup.Wait()\<close> on: the wait returns when the counter is zero, the
  statistics are read for the log line, and the deferred \<open>cancelFunc()\<close> runs.
\<close>

definition main_step :: "('sc, 'w) system \<Rightarrow> ('sc, 'w) system" where
  "main_step s =
     (case m_pc s of
        M_Wait \<Rightarrow>
          if WaitGroup s = 0
          then s\<lparr>m_pc := M_Logged,
                 trace := trace s @
                   [Ev_Log (DirectoriesScanned s) (FilesFound s)
                      (FilesNeedTransfer s) (FilesTransferred s)]\<rparr>
          else s
      | M_Logged \<Rightarrow> s\<lparr>cancelled := True, m_pc := M_Returned, trace := trace s @ [Ev_Cancel]\<rparr>
      | M_Returned \<Rightarrow> s)"

text \<open>The goroutine that waits for SIGINT or SIGTERM and then calls \<open>cancelFunc()\<close>.\<close>

definition signal_step :: "('sc, 'w) system \<Rightarrow> ('sc, 'w) system" where
  "signal_step s = s\<lparr>cancelled := True, trace := trace s @ [Ev_Cancel]\<rparr>"

subsection \<open>Runs\<close>

text \<open>
  A schedule says, step by step, which goroutine moves (or that the signal arrives) and,
  for a worker at its \<open>select\<close>, which case is taken. Every interleaving of the program
  is the run of some schedule.
\<close>

datatype choice =
    Signal
  | Scraper_Step
  | Checker_Step select_case
  | Transfer_Step select_case
  | Main_Step

fun step :: "('sc, 'w) collaborators \<Rightarrow> choice \<Rightarrow> ('sc, 'w) system \<Rightarrow> ('sc, 'w) system" where
  "step C Signal s = signal_step s"
| "step C Scraper_Step s = scraper_step C s"
| "step C (Checker_Step sel) s = checker_step C sel s"
| "step C (Transfer_Step sel) s = transfer_step C sel s"
| "step C Main_Step s = main_step s"

fun run :: "('sc, 'w) collaborators \<Rightarrow> choice list \<Rightarrow> ('sc, 'w) system \<Rightarrow> ('sc, 'w) system" where
  "run C [] s = s"
| "run C (c # cs) s = run C cs (step C c s)"

text \<open>Reading the trace.\<close>

fun owner :: "counter \<Rightarrow> stage" where
  "owner Ctr_DirectoriesScanned = Scraper"
| "owner Ctr_FilesFound = Scraper"
| "owner Ctr_FilesNeedTransfer = Checker"
| "owner Ctr_FilesTransferred = Transfer"

fun is_write :: "counter \<Rightarrow> event \<Rightarrow> bool" where
  "is_write c (Ev_Write c' st v) = (c = c')"
| "is_write c e = False"

fun is_log :: "event \<Rightarrow> bool" where
  "is_log (Ev_Log a b c d) = True"
| "is_log e = False"

fun is_true_NeedsTransfer :: "event \<Rightarrow> bool" where
  "is_true_NeedsTransfer (Ev_NeedsTransfer f b) = b"
| "is_true_NeedsTransfer e = False"

fun is_true_PerformTransfer :: "event \<Rightarrow> bool" where
  "is_true_PerformTransfer (Ev_PerformTransfer f b) = b"
| "is_true_PerformTransfer e = False"

text \<open>The events by which a worker takes in or works on a file.\<close>

fun work_of :: "stage \<Rightarrow> event \<Rightarrow> bool" where
  "work_of st (Ev_Recv st' f) = (st = st')"
| "work_of st (Ev_NeedsTransfer f b) = (st = Checker)"
| "work_of st (Ev_PerformTransfer f b) = (st = Transfer)"
| "work_of st (Ev_Send st' f) = (st = st')"
| "work_of st e = False"

subsection \<open>A small pipeline for concrete runs\<close>

text \<open>
  The scraper state is the list of listings still to come; the world is the list of
  paths present at the target. A file needs transfer when its path is not at the
  target, and a transfer puts it there.
\<close>

definition demo_collaborators :: "(File list list, string list) collaborators" where
  "demo_collaborators =
     \<lparr>Scraper_Done = (\<lambda>sc. sc = []),
      Scraper_Next = (\<lambda>sc. case sc of [] \<Rightarrow> ([], []) | d # ds \<Rightarrow> (d, ds)),
      NeedsTransfer = (\<lambda>f w. (File_Path f \<notin> set w, w)),
      PerformTransfer = (\<lambda>f w. (True, File_Path f # w))\<rparr>"

text \<open>
  Two files in one listing, the second already at the target, and a schedule that runs
  the scraper, then the checker, then the transfer worker, then \<open>Run\<close>, each to its end.
\<close>

definition demo_a :: File where
  "demo_a = \<lparr>File_Path = ''a.txt''\<rparr>"

definition demo_b :: File where
  "demo_b = \<lparr>File_Path = ''b.txt''\<rparr>"

definition demo_schedule :: "choice list" where
  "demo_schedule =
     replicate 11 Scraper_Step @ replicate 10 (Checker_Step Case_Recv) @
     replicate 6 (Transfer_Step Case_Recv) @ [Main_Step, Main_Step]"

section \<open>Properties of the Yum source\<close>

lemma noteEntries_files:
  "fst (noteEntries es fs m) = fs @ map (\<lambda>e. \<lparr>Path = Location_Href e\<rparr>) es"
  by (induction es arbitrary: fs m) auto

lemma noteEntries_map:
  "snd (noteEntries es fs m) t =
     (case filter (\<lambda>e. Type e = t) es of [] \<Rightarrow> m t | xs \<Rightarrow> Some (Location_Href (last xs)))"
  by (induction es arbitrary: fs m) (auto split: list.splits)

lemma noteEntries_eq:
  "noteEntries es fs m = (fs @ map (\<lambda>e. \<lparr>Path = Location_Href e\<rparr>) es, snd (noteEntries es fs m))"
  using noteEntries_files [of es fs m] by (cases "noteEntries es fs m") simp

lemma noteEntries_None:
  "t \<notin> Type ` set es \<Longrightarrow> snd (noteEntries es fs Map.empty) t = None"
proof -
  assume "t \<notin> Type ` set es"
  then have "filter (\<lambda>e. Type e = t) es = []"
    by (auto simp: filter_empty_conv)
  then show ?thesis by (simp add: noteEntries_map)
qed

lemma noteEntries_Some:
  "t \<in> Type ` set es \<Longrightarrow>
   snd (noteEntries es fs Map.empty) t = Some (Location_Href (last (filter (\<lambda>e. Type e = t) es)))"
proof -
  assume "t \<in> Type ` set es"
  then have "filter (\<lambda>e. Type e = t) es \<noteq> []"
    by (auto simp: filter_empty_conv)
  then show ?thesis by (simp add: noteEntries_map split: list.splits)
qed

lemma appendPackages_eq:
  "appendPackages ps fs = fs @ map (\<lambda>p. \<lparr>Path = Package_Location_Href p\<rparr>) ps"
  by (induction ps arbitrary: fs) auto

lemma appendDeltas_eq:
  "appendDeltas ps fs = fs @ map (\<lambda>p. \<lparr>Path = Delta_Href p\<rparr>) ps"
  by (induction ps arbitrary: fs) auto

lemma getFileContents_uri:
  "getFileContents E s path = (buf, uri, e) \<Longrightarrow> uri = URLSource_getURLForPath E (toURLSource s) path"
  by (auto simp: getFileContents_def Let_def split: sum.splits)


lemma downloadAndParseXML_uri:
  "fst (downloadAndParseXML E s path um) = URLSource_getURLForPath E (toURLSource s) path"
  by (auto simp: downloadAndParseXML_def dest: getFileContents_uri split: prod.splits option.splits sum.splits)


text \<open>The outcome of \<open>ListAllFiles\<close>, stage by stage.\<close>

lemma ListAllFiles_unfold:
  "ListAllFiles E s =
     (case snd (downloadAndParseXML E s repomdPath (xml_Unmarshal_repomd E)) of
        Inl lerr \<Rightarrow> Inl lerr
      | Inr repomd \<Rightarrow>
          (if ''primary'' \<notin> Type ` set (Entries repomd) then
             Inl \<lparr>Location = URLSource_getURLForPath E (toURLSource s) repomdPath,
                  Message = ''cannot find link to primary.xml.gz in repomd.xml''\<rparr>
           else
             (case snd (downloadAndParseXML E s
                     (Location_Href (last (filter (\<lambda>e. Type e = ''primary'') (Entries repomd))))
                     (xml_Unmarshal_primary E)) of
                Inl lerr \<Rightarrow> Inl lerr
              | Inr primary \<Rightarrow>
                  (if ''prestodelta'' \<notin> Type ` set (Entries repomd) then
                     Inr (\<lparr>Path = repomdPath\<rparr> #
                          map (\<lambda>e. \<lparr>Path = Location_Href e\<rparr>) (Entries repomd) @
                          map (\<lambda>p. \<lparr>Path = Package_Location_Href p\<rparr>) (Packages primary))
                   else
                     (case snd (downloadAndParseXML E s
                             (Location_Href (last (filter (\<lambda>e. Type e = ''prestodelta'') (Entries repomd))))
                             (xml_Unmarshal_prestodelta E)) of
                        Inl lerr \<Rightarrow> Inl lerr
                      | Inr prestodelta \<Rightarrow>
                          Inr (\<lparr>Path = repomdPath\<rparr> #
                               map (\<lambda>e. \<lparr>Path = Location_Href e\<rparr>) (Entries repomd) @
                               map (\<lambda>p. \<lparr>Path = Package_Location_Href p\<rparr>) (Packages primary) @
                               map (\<lambda>p. \<lparr>Path = Delta_Href p\<rparr>) (NewPackages prestodelta)))))))"
proof (cases "downloadAndParseXML E s repomdPath (xml_Unmarshal_repomd E)")
  case (Pair repomdURL r)
  have url: "repomdURL = URLSource_getURLForPath E (toURLSource s) repomdPath"
    using downloadAndParseXML_uri [of E s repomdPath "xml_Unmarshal_repomd E"] Pair by simp
  show ?thesis
  proof (cases r)
    case (Inl lerr)
    with Pair show ?thesis by (simp add: ListAllFiles_def)
  next
    case (Inr repomd)
    obtain m where ne: "noteEntries (Entries repomd) [\<lparr>Path = repomdPath\<rparr>] Map.empty =
        (\<lparr>Path = repomdPath\<rparr> # map (\<lambda>e. \<lparr>Path = Location_Href e\<rparr>) (Entries repomd), m)"
      and m: "m = snd (noteEntries (Entries repomd) [\<lparr>Path = repomdPath\<rparr>] Map.empty)"
      using noteEntries_eq [of "Entries repomd" "[\<lparr>Path = repomdPath\<rparr>]" Map.empty] by simp
    show ?thesis
    proof (cases "''primary'' \<in> Type ` set (Entries repomd)")
      case False
      then have "m ''primary'' = None" unfolding m by (rule noteEntries_None)
      with Pair Inr ne False url show ?thesis by (simp add: ListAllFiles_def)
    next
      case True
      then have mp: "m ''primary'' =
          Some (Location_Href (last (filter (\<lambda>e. Type e = ''primary'') (Entries repomd))))"
        unfolding m by (rule noteEntries_Some)
      show ?thesis
      proof (cases "''prestodelta'' \<in> Type ` set (Entries repomd)")
        case False
        then have "m ''prestodelta'' = None" unfolding m by (rule noteEntries_None)
        with Pair Inr ne True mp False show ?thesis
          by (simp add: ListAllFiles_def appendPackages_eq split: prod.splits sum.splits)
      next
        case pd: True
        then have "m ''prestodelta'' =
          Some (Location_Href (last (filter (\<lambda>e. Type e = ''prestodelta'') (Entries repomd))))"
          unfolding m by (rule noteEntries_Some)
        with Pair Inr ne True mp pd show ?thesis
          by (simp add: ListAllFiles_def appendPackages_eq appendDeltas_eq split: prod.splits sum.splits)
      qed
    qed
  qed
qed




text \<open>The concrete repositories, evaluated.\<close>

lemmas demo_defs =
  ListAllFiles_def downloadAndParseXML_def getFileContents_def demo_env_def demo_Do_def
  repomdPath_def bytes_HasPrefix_def gzip_magic_def gunzip_def


lemma demo_b_repomd:
  "snd (downloadAndParseXML demo_env (YumSource ''b/'') repomdPath (xml_Unmarshal_repomd demo_env)) =
     Inr \<lparr>Entries = [\<lparr>Type = ''primary'', Location_Href = ''repodata/primary.xml.gz''\<rparr>]\<rparr>"
  by (simp add: demo_defs)

lemma demo_c_repomd:
  "snd (downloadAndParseXML demo_env (YumSource ''c/'') repomdPath (xml_Unmarshal_repomd demo_env)) =
     Inr \<lparr>Entries = [\<lparr>Type = ''prestodelta'', Location_Href = ''repodata/prestodelta.xml''\<rparr>]\<rparr>"
  by (simp add: demo_defs)

lemma demo_b_primary:
  "snd (downloadAndParseXML demo_env (YumSource ''b/'') ''repodata/primary.xml.gz''
         (xml_Unmarshal_primary demo_env)) =
     Inr \<lparr>Packages = [\<lparr>Package_Location_Href = ''pkg-1.0.rpm''\<rparr>]\<rparr>"
  by (simp add: demo_defs)

text \<open>
  C4. Given a parsed repomd.xml: without an entry of type \<open>primary\<close>, \<open>ListAllFiles\<close>
  fails with a \<open>ListEntriesError\<close> located at the URL of repomd.xml; with a \<open>primary\<close>
  entry but none of type \<open>prestodelta\<close>, no delta index is consulted: the outcome
  is that of the primary index alone, and once that index is fetched and parsed the
  call succeeds with repomd.xml, the data hrefs and the package hrefs, and no delta file.
\<close>

theorem ListAllFiles_missing_index:
  assumes "snd (downloadAndParseXML E s repomdPath (xml_Unmarshal_repomd E)) = Inr repomd"
  shows "(''primary'' \<notin> Type ` set (Entries repomd) \<longrightarrow>
            ListAllFiles E s =
              Inl \<lparr>Location = URLSource_getURLForPath E (toURLSource s) repomdPath,
                   Message = ''cannot find link to primary.xml.gz in repomd.xml''\<rparr>) \<and>
         (''primary'' \<in> Type ` set (Entries repomd) \<and>
          ''prestodelta'' \<notin> Type ` set (Entries repomd) \<longrightarrow>
            ListAllFiles E s =
              (case snd (downloadAndParseXML E s
                      (Location_Href (last (filter (\<lambda>e. Type e = ''primary'') (Entries repomd))))
                      (xml_Unmarshal_primary E)) of
                 Inl lerr \<Rightarrow> Inl lerr
               | Inr primary \<Rightarrow>
                   Inr (\<lparr>Path = repomdPath\<rparr> #
                        map (\<lambda>e. \<lparr>Path = Location_Href e\<rparr>) (Entries repomd) @
                        map (\<lambda>p. \<lparr>Path = Package_Location_Href p\<rparr>) (Packages primary))))"
  using assms by (auto simp: ListAllFiles_unfold split: sum.splits)

theorem ListAllFiles_missing_index_witness:
  "ListAllFiles demo_env (YumSource ''c/'') =
     Inl \<lparr>Location = ''c/repodata/repomd.xml'',
          Message = ''cannot find link to primary.xml.gz in repomd.xml''\<rparr> \<and>
   ListAllFiles demo_env (YumSource ''b/'') =
     Inr [\<lparr>Path = ''repodata/repomd.xml''\<rparr>, \<lparr>Path = ''repodata/primary.xml.gz''\<rparr>,
          \<lparr>Path = ''pkg-1.0.rpm''\<rparr>]"
proof
  show "ListAllFiles demo_env (YumSource ''c/'') =
     Inl \<lparr>Location = ''c/repodata/repomd.xml'',
          Message = ''cannot find link to primary.xml.gz in repomd.xml''\<rparr>"
    using ListAllFiles_missing_index [OF demo_c_repomd]
    by (simp add: demo_env_def repomdPath_def)
  show "ListAllFiles demo_env (YumSource ''b/'') =
     Inr [\<lparr>Path = ''repodata/repomd.xml''\<rparr>, \<lparr>Path = ''repodata/primary.xml.gz''\<rparr>,
          \<lparr>Path = ''pkg-1.0.rpm''\<rparr>]"
    using ListAllFiles_missing_index [OF demo_b_repomd] demo_b_primary
    by (simp add: repomdPath_def)
qed



lemma getFileContents_gzip_NewReader_update [simp]:
  "getFileContents (E\<lparr>gzip_NewReader := g\<rparr>) s path = getFileContents E s path"
  by (simp add: getFileContents_def Let_def cong: sum.case_cong)

lemma HasPrefix_gzip_magic:
  "bytes_HasPrefix buf gzip_magic \<longleftrightarrow> take 3 buf = [0x1f, 0x8b, 0x08]"
proof
  assume "bytes_HasPrefix buf gzip_magic"
  then show "take 3 buf = [0x1f, 0x8b, 0x08]"
    by (auto simp: bytes_HasPrefix_def gzip_magic_def prefix_def)
next
  assume "take 3 buf = [0x1f, 0x8b, 0x08]"
  then have "buf = [0x1f, 0x8b, 0x08] @ drop 3 buf"
    by (metis append_take_drop_id)
  then show "bytes_HasPrefix buf gzip_magic"
    unfolding bytes_HasPrefix_def gzip_magic_def by (metis prefixI)
qed

lemma demo_a_primary_contents:
  "getFileContents demo_env (YumSource ''a/'') ''repodata/primary.xml.gz'' =
     ([0x1f, 0x8b, 0x08, 2], ''a/repodata/primary.xml.gz'', None)"
  by (simp add: demo_defs)

lemma demo_a_repomd_contents:
  "getFileContents demo_env (YumSource ''a/'') repomdPath = ([1], ''a/repodata/repomd.xml'', None)"
  by (simp add: demo_defs)

lemma demo_e_repomd_contents:
  "getFileContents demo_env (YumSource ''e/'') repomdPath =
     ([0x1f, 0x8b, 0x08, 7], ''e/repodata/repomd.xml'', None)"
  by (simp add: demo_defs)

text \<open>
  C5. For a document whose contents \<open>buf\<close> were fetched from \<open>uri\<close>: when \<open>buf\<close>
  begins with the bytes 1f 8b 08 it is decompressed and the decompressed bytes are
  parsed, and a failing decompression yields a \<open>ListEntriesError\<close> at \<open>uri\<close>; when
  it does not begin with them, \<open>buf\<close> itself is parsed and the decompressor plays no
  part (replacing it changes nothing). \<open>uri\<close> is the URL of the document's path.
\<close>

theorem downloadAndParseXML_gzip_detection:
  assumes "getFileContents E s path = (buf, uri, None)"
  shows "(take 3 buf = [0x1f, 0x8b, 0x08] \<longrightarrow>
            downloadAndParseXML E s path unmarshal =
              (case gunzip E buf of
                 Inl err \<Rightarrow>
                   (uri, Inl \<lparr>Location = uri,
                              Message = ''error while decompressing GZip archive: '' @ err\<rparr>)
               | Inr plain \<Rightarrow>
                   (case unmarshal plain of
                      Inl err \<Rightarrow>
                        (uri, Inl \<lparr>Location = uri, Message = ''error while parsing XML: '' @ err\<rparr>)
                    | Inr data \<Rightarrow> (uri, Inr data)))) \<and>
         (take 3 buf \<noteq> [0x1f, 0x8b, 0x08] \<longrightarrow>
            downloadAndParseXML E s path unmarshal =
              (case unmarshal buf of
                 Inl err \<Rightarrow>
                   (uri, Inl \<lparr>Location = uri, Message = ''error while parsing XML: '' @ err\<rparr>)
               | Inr data \<Rightarrow> (uri, Inr data)) \<and>
            (\<forall>g. downloadAndParseXML (E\<lparr>gzip_NewReader := g\<rparr>) s path unmarshal =
                  downloadAndParseXML E s path unmarshal)) \<and>
         uri = URLSource_getURLForPath E (toURLSource s) path"
proof -
  have u: "uri = URLSource_getURLForPath E (toURLSource s) path"
    using assms by (rule getFileContents_uri)
  have 1: "take 3 buf = [0x1f, 0x8b, 0x08] \<Longrightarrow>
      downloadAndParseXML E s path unmarshal =
        (case gunzip E buf of
           Inl err \<Rightarrow>
             (uri, Inl \<lparr>Location = uri,
                        Message = ''error while decompressing GZip archive: '' @ err\<rparr>)
         | Inr plain \<Rightarrow>
             (case unmarshal plain of
                Inl err \<Rightarrow>
                  (uri, Inl \<lparr>Location = uri, Message = ''error while parsing XML: '' @ err\<rparr>)
              | Inr data \<Rightarrow> (uri, Inr data)))"
    by (simp add: downloadAndParseXML_def assms HasPrefix_gzip_magic)
  have 2: "downloadAndParseXML E' s path unmarshal =
        (case unmarshal buf of
           Inl err \<Rightarrow>
             (uri, Inl \<lparr>Location = uri, Message = ''error while parsing XML: '' @ err\<rparr>)
         | Inr data \<Rightarrow> (uri, Inr data))"
    if "take 3 buf \<noteq> [0x1f, 0x8b, 0x08]" and "getFileContents E' s path = (buf, uri, None)"
    for E' :: "('a, 'b, 'c) env"
    using that by (simp add: downloadAndParseXML_def HasPrefix_gzip_magic)
  show ?thesis
    using u 1 2 [OF _ assms] 2 [of "E\<lparr>gzip_NewReader := g\<rparr>" for g] assms
    by simp
qed

theorem downloadAndParseXML_gzip_detection_witness:
  "downloadAndParseXML demo_env (YumSource ''a/'') ''repodata/primary.xml.gz''
       (xml_Unmarshal_primary demo_env) =
     (''a/repodata/primary.xml.gz'',
      Inr \<lparr>Packages = [\<lparr>Package_Location_Href = ''pkg-1.0.rpm''\<rparr>]\<rparr>) \<and>
   downloadAndParseXML demo_env (YumSource ''e/'') repomdPath (xml_Unmarshal_repomd demo_env) =
     (''e/repodata/repomd.xml'',
      Inl \<lparr>Location = ''e/repodata/repomd.xml'',
           Message = ''error while decompressing GZip archive: unexpected EOF''\<rparr>) \<and>
   downloadAndParseXML demo_env (YumSource ''a/'') repomdPath (xml_Unmarshal_repomd demo_env) =
     (''a/repodata/repomd.xml'',
      Inr \<lparr>Entries =
        [\<lparr>Type = ''primary'', Location_Href = ''repodata/primary.xml.gz''\<rparr>,
         \<lparr>Type = ''prestodelta'', Location_Href = ''repodata/prestodelta.xml''\<rparr>]\<rparr>)"
proof (intro conjI)
  show "downloadAndParseXML demo_env (YumSource ''a/'') ''repodata/primary.xml.gz''
       (xml_Unmarshal_primary demo_env) =
     (''a/repodata/primary.xml.gz'',
      Inr \<lparr>Packages = [\<lparr>Package_Location_Href = ''pkg-1.0.rpm''\<rparr>]\<rparr>)"
    using downloadAndParseXML_gzip_detection [OF demo_a_primary_contents,
        of "xml_Unmarshal_primary demo_env"]
    by (simp add: gunzip_def demo_env_def)
  show "downloadAndParseXML demo_env (YumSource ''e/'') repomdPath (xml_Unmarshal_repomd demo_env) =
     (''e/repodata/repomd.xml'',
      Inl \<lparr>Location = ''e/repodata/repomd.xml'',
           Message = ''error while decompressing GZip archive: unexpected EOF''\<rparr>)"
    using downloadAndParseXML_gzip_detection [OF demo_e_repomd_contents,
        of "xml_Unmarshal_repomd demo_env"]
    by (simp add: gunzip_def demo_env_def)
  show "downloadAndParseXML demo_env (YumSource ''a/'') repomdPath (xml_Unmarshal_repomd demo_env) =
     (''a/repodata/repomd.xml'',
      Inr \<lparr>Entries =
        [\<lparr>Type = ''primary'', Location_Href = ''repodata/primary.xml.gz''\<rparr>,
         \<lparr>Type = ''prestodelta'', Location_Href = ''repodata/prestodelta.xml''\<rparr>]\<rparr>)"
    using downloadAndParseXML_gzip_detection [OF demo_a_repomd_contents,
        of "xml_Unmarshal_repomd demo_env"]
    by (simp add: demo_env_def)
qed

text \<open>
  C8. On every YumSource, \<open>Validate\<close>, \<open>Connect\<close> and \<open>GetFile\<close> return what the
  URLSource method of the same name returns on the underlying value (\<open>Connect\<close> leaves
  the receiver as the URLSource method leaves it), while \<open>ListEntries\<close> does not
  delegate: it always returns the not-implemented error located at the directory's URL.
\<close>

theorem YumSource_delegation:
  "Validate E (YumSource u) name = URLSource_Validate E u name \<and>
   Connect E (YumSource u) =
     (fst (URLSource_Connect E u), YumSource (snd (URLSource_Connect E u))) \<and>
   GetFile E (YumSource u) path targetState = URLSource_GetFile E u path targetState \<and>
   ListEntries E (YumSource u) directoryPath =
     Inl \<lparr>Location = URLSource_getURLForPath E u directoryPath,
          Message = ''ListEntries is not implemented for YumSource''\<rparr>"
  by (simp add: Validate_def Connect_def GetFile_def ListEntries_def split: prod.splits)












section \<open>Properties of the pipeline\<close>

lemma run_append: "run C (xs @ ys) s = run C ys (run C xs s)"
  by (induction xs arbitrary: s) auto

lemma run_snoc: "run C (xs @ [c]) s = step C c (run C xs s)"
  by (simp add: run_append)

text \<open>A property of the initial state that every step preserves holds after every run.\<close>

lemma run_invariant:
  assumes "P s" and "\<And>s c. P s \<Longrightarrow> P (step C c s)"
  shows "P (run C sched s)"
  using assms(1) by (induction sched arbitrary: s) (auto intro: assms(2))

lemmas step_defs =
  scraper_step_def checker_step_def transfer_step_def main_step_def signal_step_def

lemmas step_splits =
  scraper_pc.splits worker_pc.splits main_pc.splits select_case.splits list.splits
  prod.splits if_splits

text \<open>A step adds at most one event to the trace.\<close>

lemma step_trace:
  "trace (step C c s) = trace s \<or> (\<exists>e. trace (step C c s) = trace s @ [e])"
  by (cases c) (auto simp: step_defs split: step_splits)

text \<open>No file with an empty path is worked on or forwarded by the workers.\<close>

definition nonempty_work :: "('sc, 'w) system \<Rightarrow> bool" where
  "nonempty_work s \<longleftrightarrow>
     (\<forall>f b. Ev_NeedsTransfer f b \<in> set (trace s) \<longrightarrow> File_Path f \<noteq> '''') \<and>
     (\<forall>f b. Ev_PerformTransfer f b \<in> set (trace s) \<longrightarrow> File_Path f \<noteq> '''') \<and>
     (\<forall>f. Ev_Send Checker f \<in> set (trace s) \<longrightarrow> File_Path f \<noteq> '''') \<and>
     (\<forall>f. c_pc s = W_Send f \<longrightarrow> File_Path f \<noteq> '''') \<and>
     (\<forall>f \<in> set (ch2 s). File_Path f \<noteq> '''')"

lemma nonempty_work_init: "nonempty_work (init sc w)"
  by (simp add: nonempty_work_def init_def)

lemma nonempty_work_step: "nonempty_work s \<Longrightarrow> nonempty_work (step C c s)"
  unfolding nonempty_work_def
  by (cases c) (auto simp: step_defs split: step_splits)

lemma nonempty_work_run: "nonempty_work (run C sched (init sc w))"
  by (rule run_invariant [OF nonempty_work_init nonempty_work_step])

text \<open>The two worker tallies count the calls that returned true.\<close>

definition worker_tallies :: "('sc, 'w) system \<Rightarrow> bool" where
  "worker_tallies s \<longleftrightarrow>
     filesNeedTransfer s = of_nat (length (filter is_true_NeedsTransfer (trace s))) \<and>
     filesTransferred s = of_nat (length (filter is_true_PerformTransfer (trace s)))"

lemma worker_tallies_init: "worker_tallies (init sc w)"
  by (simp add: worker_tallies_def init_def)

lemma worker_tallies_step: "worker_tallies s \<Longrightarrow> worker_tallies (step C c s)"
  unfolding worker_tallies_def
  by (cases c) (auto simp: step_defs split: step_splits)

lemma worker_tallies_run: "worker_tallies (run C sched (init sc w))"
  by (rule run_invariant [OF worker_tallies_init worker_tallies_step])

text \<open>
  A worker that has received a file with an empty path is on its way out: it holds
  that file, or it is in its epilogue.
\<close>

fun leaving :: "worker_pc \<Rightarrow> bool" where
  "leaving W_Select = False"
| "leaving (W_Got f) = (File_Path f = '''')"
| "leaving (W_Send f) = False"
| "leaving W_Submit = True"
| "leaving W_Close = True"
| "leaving W_WgDone = True"
| "leaving W_Exited = True"

definition sentinel_seen :: "stage \<Rightarrow> event list \<Rightarrow> bool" where
  "sentinel_seen st tr \<longleftrightarrow> (\<exists>f. Ev_Recv st f \<in> set tr \<and> File_Path f = '''')"

definition sentinel_leaves :: "('sc, 'w) system \<Rightarrow> bool" where
  "sentinel_leaves s \<longleftrightarrow>
     (sentinel_seen Checker (trace s) \<longrightarrow> leaving (c_pc s)) \<and>
     (sentinel_seen Transfer (trace s) \<longrightarrow> leaving (t_pc s))"

lemma sentinel_leaves_init: "sentinel_leaves (init sc w)"
  by (simp add: sentinel_leaves_def sentinel_seen_def init_def)

lemma sentinel_leaves_step: "sentinel_leaves s \<Longrightarrow> sentinel_leaves (step C c s)"
  unfolding sentinel_leaves_def sentinel_seen_def
  by (cases c) (auto simp: step_defs zero_File_def split: step_splits)

lemma sentinel_leaves_run: "sentinel_leaves (run C sched (init sc w))"
  by (rule run_invariant [OF sentinel_leaves_init sentinel_leaves_step])

text \<open>A leaving worker neither receives, nor calls, nor sends.\<close>

lemma leaving_checker_quiet:
  "trace (step C c s) = trace s @ [e] \<Longrightarrow> work_of Checker e \<Longrightarrow> \<not> leaving (c_pc s)"
  by (cases c) (auto simp: step_defs split: step_splits)

lemma leaving_transfer_quiet:
  "trace (step C c s) = trace s @ [e] \<Longrightarrow> work_of Transfer e \<Longrightarrow> \<not> leaving (t_pc s)"
  by (cases c) (auto simp: step_defs split: step_splits)

definition quiet_after_sentinel :: "stage \<Rightarrow> event list \<Rightarrow> bool" where
  "quiet_after_sentinel st tr \<longleftrightarrow>
     (\<forall>xs f ys. tr = xs @ Ev_Recv st f # ys \<and> File_Path f = '''' \<longrightarrow>
        (\<forall>e \<in> set ys. \<not> work_of st e))"

lemma quiet_after_sentinel_snoc:
  assumes "quiet_after_sentinel st tr" and "sentinel_seen st tr \<Longrightarrow> \<not> work_of st e"
  shows "quiet_after_sentinel st (tr @ [e])"
  unfolding quiet_after_sentinel_def
proof (intro allI impI)
  fix xs f ys
  assume a: "tr @ [e] = xs @ Ev_Recv st f # ys \<and> File_Path f = ''''"
  show "\<forall>e' \<in> set ys. \<not> work_of st e'"
  proof (cases ys rule: rev_cases)
    case Nil
    then show ?thesis by simp
  next
    case (snoc ys0 e0)
    with a have tr: "tr = xs @ Ev_Recv st f # ys0" and e: "e0 = e" by auto
    from tr a have "sentinel_seen st tr" by (auto simp: sentinel_seen_def)
    then have "\<not> work_of st e" by (rule assms(2))
    moreover from assms(1) tr a have "\<forall>e' \<in> set ys0. \<not> work_of st e'"
      unfolding quiet_after_sentinel_def by blast
    ultimately show ?thesis using snoc e by auto
  qed
qed

definition workers_quiet :: "('sc, 'w) system \<Rightarrow> bool" where
  "workers_quiet s \<longleftrightarrow>
     sentinel_leaves s \<and> quiet_after_sentinel Checker (trace s) \<and>
     quiet_after_sentinel Transfer (trace s)"

lemma workers_quiet_init: "workers_quiet (init sc w)"
  using sentinel_leaves_init [of sc w]
  by (simp add: workers_quiet_def quiet_after_sentinel_def init_def)

lemma workers_quiet_step:
  assumes "workers_quiet s"
  shows "workers_quiet (step C c s)"
proof -
  from assms have l: "sentinel_leaves s" and qc: "quiet_after_sentinel Checker (trace s)"
    and qt: "quiet_after_sentinel Transfer (trace s)"
    by (simp_all add: workers_quiet_def)
  have l': "sentinel_leaves (step C c s)" using l by (rule sentinel_leaves_step)
  from step_trace [of C c s] show ?thesis
  proof
    assume "trace (step C c s) = trace s"
    with l' qc qt show ?thesis by (simp add: workers_quiet_def)
  next
    assume "\<exists>e. trace (step C c s) = trace s @ [e]"
    then obtain e where e: "trace (step C c s) = trace s @ [e]" ..
    have "quiet_after_sentinel Checker (trace s @ [e])"
      using qc l leaving_checker_quiet [OF e]
      by (intro quiet_after_sentinel_snoc) (auto simp: sentinel_leaves_def)
    moreover have "quiet_after_sentinel Transfer (trace s @ [e])"
      using qt l leaving_transfer_quiet [OF e]
      by (intro quiet_after_sentinel_snoc) (auto simp: sentinel_leaves_def)
    ultimately show ?thesis using l' e by (simp add: workers_quiet_def)
  qed
qed

lemma workers_quiet_run: "workers_quiet (run C sched (init sc w))"
  by (rule run_invariant [OF workers_quiet_init workers_quiet_step])

text \<open>The concrete pipeline, run to its end.\<close>

lemma demo_run:
  "run demo_collaborators demo_schedule (init [[demo_a, demo_b]] [''b.txt'']) =
   \<lparr>cancelled = True, WaitGroup = 0, DirectoriesScanned = 1, FilesFound = 2,
    FilesNeedTransfer = 1, FilesTransferred = 1,
    world = [''a.txt'', ''b.txt''], ch1 = [], ch1_closed = True, ch2 = [],
    ch2_closed = True, scraper = [], s_pc = S_Exited,
    directoriesScanned = 1, filesFound = 2, c_pc = W_Exited,
    filesNeedTransfer = 1, t_pc = W_Exited, filesTransferred = 1,
    m_pc = M_Returned,
    trace =
      [Ev_Next [demo_a, demo_b],
       Ev_Send Scraper demo_a,
       Ev_Send Scraper demo_b,
       Ev_Write Ctr_DirectoriesScanned Scraper 1,
       Ev_Write Ctr_FilesFound Scraper 2, Ev_WgDone Scraper,
       Ev_Recv Checker demo_a,
       Ev_NeedsTransfer demo_a True,
       Ev_Send Checker demo_a,
       Ev_Recv Checker demo_b,
       Ev_NeedsTransfer demo_b False,
       Ev_Recv Checker zero_File,
       Ev_Write Ctr_FilesNeedTransfer Checker 1, Ev_WgDone Checker,
       Ev_Recv Transfer demo_a,
       Ev_PerformTransfer demo_a True,
       Ev_Recv Transfer zero_File,
       Ev_Write Ctr_FilesTransferred Transfer 1, Ev_WgDone Transfer,
       Ev_Log 1 2 1 1, Ev_Cancel]\<rparr>"
  by (simp add: demo_schedule_def init_def step_defs demo_collaborators_def demo_a_def demo_b_def
      chan_cap_def zero_File_def numeral_eq_Suc)

text \<open>
  C2. As stated the claim fails for the scraper, which tests no path: a file with an
  empty path that its scraper yields is counted in \<open>filesFound\<close> and sent downstream.
\<close>

theorem scraper_forwards_empty_path:
  "filesFound (run demo_collaborators [Scraper_Step, Scraper_Step, Scraper_Step]
      (init [[\<lparr>File_Path = ''''\<rparr>]] [])) = 1 \<and>
   ch1 (run demo_collaborators [Scraper_Step, Scraper_Step, Scraper_Step]
      (init [[\<lparr>File_Path = ''''\<rparr>]] [])) = [\<lparr>File_Path = ''''\<rparr>] \<and>
   trace (run demo_collaborators [Scraper_Step, Scraper_Step, Scraper_Step]
      (init [[\<lparr>File_Path = ''''\<rparr>]] [])) =
     [Ev_Next [\<lparr>File_Path = ''''\<rparr>], Ev_Send Scraper \<lparr>File_Path = ''''\<rparr>]"
  by (simp add: init_def step_defs demo_collaborators_def chan_cap_def)

text \<open>
  C2, amended. In every run, whatever the schedule and the collaborators, the checker
  and the transfer worker treat a file with an empty path as the end of their input:
  \<open>NeedsTransfer\<close> and \<open>PerformTransfer\<close> are never called on such a file, the
  checker never forwards one, the two tallies count exactly the calls that returned
  true (so never such a file), and after receiving one a worker receives, calls and
  sends nothing more. (The scraper makes no such test.)
\<close>

theorem workers_treat_empty_path_as_sentinel:
  fixes C :: "('sc, 'w) collaborators" and sched :: "choice list" and sc :: 'sc and w :: 'w
  defines "s \<equiv> run C sched (init sc w)"
  shows "(\<forall>f b. Ev_NeedsTransfer f b \<in> set (trace s) \<longrightarrow> File_Path f \<noteq> '''') \<and>
         (\<forall>f b. Ev_PerformTransfer f b \<in> set (trace s) \<longrightarrow> File_Path f \<noteq> '''') \<and>
         (\<forall>f. Ev_Send Checker f \<in> set (trace s) \<longrightarrow> File_Path f \<noteq> '''') \<and>
         filesNeedTransfer s = of_nat (length (filter is_true_NeedsTransfer (trace s))) \<and>
         filesTransferred s = of_nat (length (filter is_true_PerformTransfer (trace s))) \<and>
         (\<forall>st \<in> {Checker, Transfer}. \<forall>xs f ys.
            trace s = xs @ Ev_Recv st f # ys \<and> File_Path f = '''' \<longrightarrow>
            (\<forall>e \<in> set ys. \<not> work_of st e))"
proof -
  have "nonempty_work s" unfolding s_def by (rule nonempty_work_run)
  moreover have "worker_tallies s" unfolding s_def by (rule worker_tallies_run)
  moreover have "workers_quiet s" unfolding s_def by (rule workers_quiet_run)
  ultimately show ?thesis
    unfolding nonempty_work_def worker_tallies_def workers_quiet_def quiet_after_sentinel_def
    by blast
qed

theorem workers_treat_empty_path_as_sentinel_witness:
  "filesNeedTransfer (run demo_collaborators demo_schedule (init [[demo_a, demo_b]] [''b.txt''])) = 1 \<and>
   filesTransferred (run demo_collaborators demo_schedule (init [[demo_a, demo_b]] [''b.txt''])) = 1 \<and>
   Ev_Recv Checker zero_File \<in>
     set (trace (run demo_collaborators demo_schedule (init [[demo_a, demo_b]] [''b.txt'']))) \<and>
   File_Path zero_File = '''' \<and>
   Ev_NeedsTransfer zero_File True \<notin>
     set (trace (run demo_collaborators demo_schedule (init [[demo_a, demo_b]] [''b.txt'']))) \<and>
   Ev_NeedsTransfer zero_File False \<notin>
     set (trace (run demo_collaborators demo_schedule (init [[demo_a, demo_b]] [''b.txt''])))"
proof -
  note t = workers_treat_empty_path_as_sentinel [of demo_collaborators demo_schedule
      "[[demo_a, demo_b]]" "[''b.txt'']"]
  have z: "File_Path zero_File = ''''" by (simp add: zero_File_def)
  from t have n: "\<And>b. Ev_NeedsTransfer zero_File b \<notin>
      set (trace (run demo_collaborators demo_schedule (init [[demo_a, demo_b]] [''b.txt''])))"
    using z by blast
  from t have "filesNeedTransfer (run demo_collaborators demo_schedule (init [[demo_a, demo_b]] [''b.txt''])) =
      of_nat (length (filter is_true_NeedsTransfer
        (trace (run demo_collaborators demo_schedule (init [[demo_a, demo_b]] [''b.txt''])))))"
    by blast
  then have 1: "filesNeedTransfer (run demo_collaborators demo_schedule (init [[demo_a, demo_b]] [''b.txt''])) = 1"
    by (simp add: demo_run)
  have 2: "filesTransferred (run demo_collaborators demo_schedule (init [[demo_a, demo_b]] [''b.txt''])) = 1"
    by (simp add: demo_run)
  have 3: "Ev_Recv Checker zero_File \<in>
     set (trace (run demo_collaborators demo_schedule (init [[demo_a, demo_b]] [''b.txt''])))"
    by (simp add: demo_run)
  from 1 2 3 z n show ?thesis by blast
qed

end
